theory Spec2Isabelle
  imports Main
begin

section \<open>The terminal view of the transpiler debugger (\<open>views/cli/cli_view.py\<close>)\<close>

text \<open>
  The class \<open>CLIView\<close> keeps its navigation state in the dictionary
  \<open>_view_params\<close> and reads the recorded passes from
  \<open>transpilation_sequence.steps\<close>. The embedding keeps the dictionary as a record
  with the dictionary's keys as fields, the keys of \<open>_status_strings\<close> as a
  datatype, Python's integers as \<open>int\<close>, and passes the list of steps to every
  function that reads it. Drawing on the curses windows is not part of the model; what
  a function reads from the terminal (a key code, the text collected by the text box)
  is an argument of its model.
\<close>

subsection \<open>Data\<close>

text \<open>The keys of \<open>_status_strings\<close>: "normal", "index", "invalid",
  "out_of_bounds" and "pass".\<close>

datatype status_type = Normal | Index | Invalid | Out_of_bounds | Pass

text \<open>\<open>_view_params\<close>; \<open>transpiler_start_col\<close> is \<open>None\<close> until the overview
  window has been built.\<close>

record view_params =
  curr_row :: int
  curr_col :: int
  last_width :: int
  last_height :: int
  pass_id :: int
  transpiler_start_row :: int
  transpiler_start_col :: "int option"
  status_type :: status_type

text \<open>The two categories of \<open>PassType\<close>, and the fields of \<open>CircuitStats\<close> and of a
  step that the view reads.\<close>

datatype PassType = TRANSFORMATION | ANALYSIS

record circuit_stats =
  depth :: int
  size_stat :: int
  width :: int
  ops_1q :: int
  ops_2q :: int
  ops_3q :: int

record step =
  pass_type :: PassType
  stats :: circuit_stats

datatype py_error = IndexError | KeyError | ZeroDivisionError

subsection \<open>\<open>_reset_view_params\<close>\<close>

definition reset_view_params :: view_params where
  "reset_view_params =
     \<lparr>curr_row = 0, curr_col = 0, last_width = 0, last_height = 0, pass_id = - 1,
      transpiler_start_row = 6, transpiler_start_col = None, status_type = Normal\<rparr>"

subsection \<open>\<open>_get_center\<close>\<close>

text \<open>\<open>max(0, int(width // divisor - string_len // 2 - string_len % 2))\<close>. Python's
  \<open>//\<close> and \<open>%\<close> round towards minus infinity, as \<open>div\<close> and \<open>mod\<close> on \<open>int\<close>
  do; a zero divisor raises.\<close>

definition get_center :: "int \<Rightarrow> int \<Rightarrow> int \<Rightarrow> py_error + int" where
  "get_center w string_len divisor =
     (if divisor = 0 then Inl ZeroDivisionError
      else Inr (max 0 (w div divisor - string_len div 2 - string_len mod 2)))"

text \<open>The call with the default \<open>divisor=2\<close>, which is how every caller uses it.\<close>

definition get_center_default :: "int \<Rightarrow> int \<Rightarrow> py_error + int" where
  "get_center_default w string_len = get_center w string_len 2"

subsection \<open>\<open>_handle_keystroke\<close>\<close>

text \<open>Key codes: \<open>curses.KEY_UP\<close> and \<open>curses.KEY_LEFT\<close> of ncurses, and \<open>ord\<close> of
  the letters.\<close>

definition KEY_UP :: int where "KEY_UP = 259"
definition KEY_LEFT :: int where "KEY_LEFT = 260"

definition ord :: "char \<Rightarrow> int" where
  "ord c = of_char c"

definition handle_keystroke :: "step list \<Rightarrow> view_params \<Rightarrow> int \<Rightarrow> view_params" where
  "handle_keystroke steps vp key =
     (if key = KEY_UP then vp\<lparr>curr_row := max (curr_row vp - 1) 0\<rparr>
      else if key = KEY_LEFT then vp\<lparr>curr_col := max (curr_col vp - 1) 0\<rparr>
      else if key \<in> set [ord CHR ''i'', ord CHR ''I''] then vp\<lparr>status_type := Index\<rparr>
      else if key \<in> set [ord CHR ''n'', ord CHR ''N''] then
        (if status_type vp \<in> set [Index, Pass]
         then vp\<lparr>pass_id := min (pass_id vp + 1) (int (length steps) - 1),
                  status_type := Pass\<rparr>
         else vp)
      else if key \<in> set [ord CHR ''p'', ord CHR ''P''] then
        (if status_type vp \<in> set [Index, Pass]
         then vp\<lparr>pass_id := max 0 (pass_id vp - 1), status_type := Pass\<rparr>
         else vp)
      else if key \<in> set [ord CHR ''b'', ord CHR ''B''] then
        vp\<lparr>status_type := Normal, pass_id := - 1, curr_col := 0, curr_row := 0\<rparr>
      else vp)"

subsection \<open>Python's built-in operations on lists and strings\<close>

text \<open>\<open>xs[i]\<close>: a negative index counts from the end, an index out of range raises
  \<open>IndexError\<close>.\<close>

definition py_index :: "'a list \<Rightarrow> int \<Rightarrow> py_error + 'a" where
  "py_index xs i =
     (if 0 \<le> i \<and> i < int (length xs) then Inr (xs ! nat i)
      else if i < 0 \<and> - int (length xs) \<le> i then Inr (xs ! nat (int (length xs) + i))
      else Inl IndexError)"

text \<open>\<open>s[:k]\<close>: a negative bound counts from the end and never raises.\<close>

definition py_slice_to :: "'a list \<Rightarrow> int \<Rightarrow> 'a list" where
  "py_slice_to s k = (if 0 \<le> k then take (nat k) s else take (nat (int (length s) + k)) s)"

text \<open>\<open>s.split(sep)\<close> for a separator of one character: one more part than there are
  separators, so at least one part.\<close>

fun split_str :: "char \<Rightarrow> string \<Rightarrow> string list" where
  "split_str sep [] = [[]]"
| "split_str sep (c # cs) =
     (if c = sep then [] # split_str sep cs
      else (case split_str sep cs of [] \<Rightarrow> [[c]] | p # ps \<Rightarrow> (c # p) # ps))"

text \<open>\<open>str.isspace\<close> on the code points below 256, and \<open>s.strip()\<close>.\<close>

definition py_isspace :: "char \<Rightarrow> bool" where
  "py_isspace c =
     (let n = (of_char c :: nat)
      in (9 \<le> n \<and> n \<le> 13) \<or> (28 \<le> n \<and> n \<le> 32) \<or> n = 133 \<or> n = 160)"

definition strip :: "string \<Rightarrow> string" where
  "strip s = rev (dropWhile py_isspace (rev (dropWhile py_isspace s)))"

text \<open>
  \<open>int(s)\<close> for a string, base 10. CPython first rewrites the characters from 127 on
  (white space to a blank, anything else that is no decimal digit to \<open>?\<close>), then skips
  the white space of the C locale, reads an optional sign and the digits, where single
  underscores may stand between two digits, skips white space again and requires the
  end of the string. Once the digits are scanned, a text with more digits than
  \<open>sys.get_int_max_str_digits()\<close> is refused; underscores do not count, leading zeros
  do. \<open>None\<close> stands for \<open>ValueError\<close>.
\<close>

text \<open>The limit on the digits as the interpreter sets it by default (Python 3.11 on).\<close>

definition max_str_digits :: nat where
  "max_str_digits = 4300"

definition to_ascii :: "char \<Rightarrow> char" where
  "to_ascii c = (if (of_char c :: nat) < 127 then c else if py_isspace c then CHR '' '' else CHR ''?'')"

definition c_isspace :: "char \<Rightarrow> bool" where
  "c_isspace c = (let n = (of_char c :: nat) in (9 \<le> n \<and> n \<le> 13) \<or> n = 32)"

definition is_digit :: "char \<Rightarrow> bool" where
  "is_digit c = (let n = (of_char c :: nat) in 48 \<le> n \<and> n \<le> 57)"

definition digit_val :: "char \<Rightarrow> nat" where
  "digit_val c = of_char c - 48"

text \<open>The digit loop: \<open>prev_us\<close> says that the character before was an underscore,
  \<open>digits\<close> counts the digits read so far. It returns the number of digits, the value
  read and the rest of the string.\<close>

fun scan_digits :: "bool \<Rightarrow> nat \<Rightarrow> nat \<Rightarrow> string \<Rightarrow> (nat \<times> nat \<times> string) option" where
  "scan_digits prev_us digits acc [] = (if prev_us then None else Some (digits, acc, []))"
| "scan_digits prev_us digits acc (c # cs) =
     (if is_digit c then scan_digits False (Suc digits) (10 * acc + digit_val c) cs
      else if c = CHR ''_'' then (if prev_us then None else scan_digits True digits acc cs)
      else if prev_us then None
      else Some (digits, acc, c # cs))"

definition py_int :: "string \<Rightarrow> int option" where
  "py_int s =
     (let s1 = dropWhile c_isspace (map to_ascii s);
          negative = (case s1 of [] \<Rightarrow> False | c # _ \<Rightarrow> c = CHR ''-'');
          s2 = (case s1 of [] \<Rightarrow> [] | c # cs \<Rightarrow> if c = CHR ''+'' \<or> c = CHR ''-'' then cs else s1)
      in case s2 of
           [] \<Rightarrow> None
         | c # _ \<Rightarrow>
             if \<not> is_digit c then None
             else (case scan_digits False 0 0 s2 of
                     None \<Rightarrow> None
                   | Some (digits, n, rest) \<Rightarrow>
                       if max_str_digits < digits then None
                       else if dropWhile c_isspace rest = []
                         then Some (if negative then - int n else int n)
                       else None))"

text \<open>\<open>str(i)\<close> of an integer, as an f-string formats it.\<close>

definition digit_char :: "nat \<Rightarrow> char" where
  "digit_char d = char_of (48 + d)"

function str_nat :: "nat \<Rightarrow> string" where
  "str_nat n = (if n < 10 then [digit_char n] else str_nat (n div 10) @ [digit_char (n mod 10)])"
  by pat_completeness auto
termination
  by (relation "measure id") auto

definition str_int :: "int \<Rightarrow> string" where
  "str_int i = (if i < 0 then CHR ''-'' # str_nat (nat (- i)) else str_nat (nat i))"

subsection \<open>\<open>_get_statusbar_win\<close>\<close>

text \<open>
  The function draws \<open>_status_strings[status_type]\<close>, cut to the width of the terminal,
  on a window of one row. For "index" it runs a text box on that window and reads the
  window back: \<open>gathered\<close> is what \<open>textbox.gather()\<close> returns, the prompt as far as it
  was drawn followed by what the user typed. The model returns the view parameters and
  the key of the status string that the returned window shows. \<open>split(":")[1]\<close> stands
  outside the \<open>try\<close>, so its \<open>IndexError\<close> leaves the function; \<open>ValueError\<close> of
  \<open>int\<close> is caught.
\<close>

definition get_statusbar_win ::
  "step list \<Rightarrow> view_params \<Rightarrow> status_type \<Rightarrow> string \<Rightarrow> py_error + (view_params \<times> status_type)" where
  "get_statusbar_win steps vp st gathered =
     (if st = Index then
        (case py_index (split_str CHR '':'' gathered) 1 of
           Inl e \<Rightarrow> Inl e
         | Inr part \<Rightarrow>
             (let str_value = strip part
              in case py_int str_value of
                   Some num \<Rightarrow>
                     (let total_passes = int (length steps)
                      in if num \<ge> total_passes \<or> num < 0 then Inr (vp, Out_of_bounds)
                         else Inr (vp\<lparr>pass_id := num\<rparr>, Pass))
                 | None \<Rightarrow> Inr (vp, Invalid)))
      else Inr (vp, st))"

text \<open>The prompt, \<open>_status_strings["index"]\<close>.\<close>

definition index_prompt :: string where
  "index_prompt = '' STATUS BAR  | Enter the index of the pass you want to view : ''"

subsection \<open>\<open>_get_overview_stats\<close>\<close>

text \<open>The dictionary of a \<open>CircuitStats\<close> object, \<open>circuit_stats.__dict__\<close>, with the
  attribute names as keys.\<close>

definition stats_dict :: "circuit_stats \<Rightarrow> (string \<times> int) list" where
  "stats_dict cs =
     [(''depth'', depth cs), (''size'', size_stat cs), (''width'', width cs),
      (''ops_1q'', ops_1q cs), (''ops_2q'', ops_2q cs), (''ops_3q'', ops_3q cs)]"

record init_final =
  init :: int
  final :: int

text \<open>\<open>d[k]\<close> on a dictionary kept as an association list.\<close>

definition py_getitem :: "(string \<times> 'v) list \<Rightarrow> string \<Rightarrow> py_error + 'v" where
  "py_getitem d k = (case map_of d k of None \<Rightarrow> Inl KeyError | Some v \<Rightarrow> Inr v)"

text \<open>The loop \<open>for prop in overview_stats\<close>, which fills "init" and "final" of every
  key from the two \<open>__dict__\<close>s.\<close>

fun fill_stats ::
  "(string \<times> int) list \<Rightarrow> (string \<times> int) list \<Rightarrow> string list \<Rightarrow> py_error + (string \<times> init_final) list" where
  "fill_stats init_step_dict final_step_dict [] = Inr []"
| "fill_stats init_step_dict final_step_dict (prop # props) =
     (case py_getitem init_step_dict prop of
        Inl e \<Rightarrow> Inl e
      | Inr i \<Rightarrow>
          (case py_getitem final_step_dict prop of
             Inl e \<Rightarrow> Inl e
           | Inr f \<Rightarrow>
               (case fill_stats init_step_dict final_step_dict props of
                  Inl e \<Rightarrow> Inl e
                | Inr rest \<Rightarrow> Inr ((prop, \<lparr>init = i, final = f\<rparr>) # rest))))"

text \<open>
  The result is a dictionary, kept as an association list in the order of insertion:
  "depth", "size" and "width", then "ops". \<open>steps[0]\<close> and \<open>steps[-1]\<close> raise on an
  empty list.
\<close>

definition get_overview_stats :: "step list \<Rightarrow> py_error + (string \<times> init_final) list" where
  "get_overview_stats steps =
     (case py_index steps 0 of
        Inl e \<Rightarrow> Inl e
      | Inr init_step \<Rightarrow>
          (case py_index steps (- 1) of
             Inl e \<Rightarrow> Inl e
           | Inr final_step \<Rightarrow>
               (case fill_stats (stats_dict (stats init_step)) (stats_dict (stats final_step))
                       [''depth'', ''size'', ''width''] of
                  Inl e \<Rightarrow> Inl e
                | Inr overview_stats \<Rightarrow>
                    Inr (overview_stats @
                      [(''ops'',
                        \<lparr>init = ops_1q (stats init_step) + ops_2q (stats init_step)
                                 + ops_3q (stats init_step),
                         final = ops_1q (stats final_step) + ops_2q (stats final_step)
                                 + ops_3q (stats final_step)\<rparr>)]))))"

subsection \<open>\<open>_build_overview_win\<close>: the totals of the passes\<close>

text \<open>The loop over the steps: \<open>total_passes["T"]\<close> counts the transformation passes,
  \<open>total_passes["A"]\<close> every other pass. The pair is \<open>(T, A)\<close>.\<close>

definition total_passes :: "step list \<Rightarrow> int \<times> int" where
  "total_passes steps =
     fold (\<lambda>st (t, a). if pass_type st = TRANSFORMATION then (t + 1, a) else (t, a + 1))
       steps (0, 0)"

text \<open>The two lines written at rows 6 and 7 of the window, each cut to
  \<open>overview_cols - 1\<close> characters.\<close>

definition total_pass_str :: "step list \<Rightarrow> int \<Rightarrow> string" where
  "total_pass_str steps overview_cols =
     (case total_passes steps of
        (t, a) \<Rightarrow> py_slice_to (''Total Passes : '' @ str_int (a + t)) (overview_cols - 1))"

definition pass_categories_str :: "step list \<Rightarrow> int \<Rightarrow> string" where
  "pass_categories_str steps overview_cols =
     (case total_passes steps of
        (t, a) \<Rightarrow>
          py_slice_to (''Transformation : '' @ str_int t @ '' | Analysis : '' @ str_int a)
            (overview_cols - 1))"

subsection \<open>\<open>_refresh_base_windows\<close> and \<open>display\<close>\<close>

text \<open>
  What one turn of the loop of \<open>display\<close> reads from outside: the key (read at the end
  of the turn before; 0 in the first turn), the size of the terminal, the length of the
  first line of the table that \<open>tabulate\<close> lays out, and the text that the text box
  collects should the status bar be drawn for "index".
\<close>

record turn =
  turn_key :: int
  turn_height :: int
  turn_width :: int
  table_width :: int
  turn_text :: string

text \<open>When the terminal was resized the overview window is rebuilt, which reads the
  overview statistics and stores \<open>transpiler_start_col\<close>; the status bar is drawn in
  every turn, for the current \<open>status_type\<close>.\<close>

definition refresh_base_windows :: "step list \<Rightarrow> view_params \<Rightarrow> bool \<Rightarrow> turn \<Rightarrow> py_error + view_params" where
  "refresh_base_windows steps vp resized t =
     (case (if resized
            then (case get_overview_stats steps of
                    Inl e \<Rightarrow> Inl e
                  | Inr _ \<Rightarrow> Inr (vp\<lparr>transpiler_start_col := Some (5 + table_width t + 5)\<rparr>))
            else Inr vp) of
        Inl e \<Rightarrow> Inl e
      | Inr vp1 \<Rightarrow>
          (case get_statusbar_win steps vp1 (status_type vp1) (turn_text t) of
             Inl e \<Rightarrow> Inl e
           | Inr (vp2, shown) \<Rightarrow> Inr vp2))"

text \<open>The loop of \<open>display\<close> over the turns given; it leaves at the key \<open>q\<close> or \<open>Q\<close>,
  and otherwise waits for the next key, so a list of turns is a session up to some
  moment.\<close>

fun display_loop :: "step list \<Rightarrow> view_params \<Rightarrow> turn list \<Rightarrow> py_error + view_params" where
  "display_loop steps vp [] = Inr vp"
| "display_loop steps vp (t # ts) =
     (if turn_key t \<in> set [ord CHR ''q'', ord CHR ''Q''] then Inr vp
      else
        (let panel_resized = (last_width vp \<noteq> turn_width t \<or> last_height vp \<noteq> turn_height t);
             vp1 = handle_keystroke steps vp (turn_key t)
         in case refresh_base_windows steps vp1 panel_resized t of
              Inl e \<Rightarrow> Inl e
            | Inr vp2 \<Rightarrow>
                display_loop steps (vp2\<lparr>last_width := turn_width t, last_height := turn_height t\<rparr>) ts))"

text \<open>\<open>display\<close>: the parameters are reset and the windows drawn once, with the
  first turn's terminal, before the loop starts.\<close>

definition display :: "step list \<Rightarrow> turn list \<Rightarrow> py_error + view_params" where
  "display steps ts =
     (case ts of
        [] \<Rightarrow> Inr reset_view_params
      | t # _ \<Rightarrow>
          (case refresh_base_windows steps reset_view_params True t of
             Inl e \<Rightarrow> Inl e
           | Inr vp \<Rightarrow> display_loop steps vp ts))"

subsection \<open>The invariant of the selection, and sample data\<close>

text \<open>A pass is selected (\<open>pass_id\<close> is not \<open>-1\<close>) only while \<open>status_type\<close> is "index"
  or "pass".\<close>

definition selection_inv :: "view_params \<Rightarrow> bool" where
  "selection_inv vp = (pass_id vp \<noteq> - 1 \<longrightarrow> status_type vp \<in> {Index, Pass})"


text \<open>The selection is \<open>-1\<close> or an index of the sequence.\<close>

definition selection_range :: "step list \<Rightarrow> view_params \<Rightarrow> bool" where
  "selection_range steps vp = (- 1 \<le> pass_id vp \<and> pass_id vp \<le> int (length steps) - 1)"

text \<open>A sequence of five steps, three transformation and two analysis passes, whose
  first and last statistics are neither the least nor the greatest of the sequence.\<close>

definition five_steps :: "step list" where
  "five_steps =
     [\<lparr>pass_type = ANALYSIS,
       stats = \<lparr>depth = 7, size_stat = 9, width = 3, ops_1q = 4, ops_2q = 5, ops_3q = 0\<rparr>\<rparr>,
      \<lparr>pass_type = TRANSFORMATION,
       stats = \<lparr>depth = 2, size_stat = 30, width = 5, ops_1q = 1, ops_2q = 1, ops_3q = 1\<rparr>\<rparr>,
      \<lparr>pass_type = TRANSFORMATION,
       stats = \<lparr>depth = 12, size_stat = 20, width = 5, ops_1q = 14, ops_2q = 6, ops_3q = 0\<rparr>\<rparr>,
      \<lparr>pass_type = ANALYSIS,
       stats = \<lparr>depth = 12, size_stat = 40, width = 6, ops_1q = 20, ops_2q = 18, ops_3q = 2\<rparr>\<rparr>,
      \<lparr>pass_type = TRANSFORMATION,
       stats = \<lparr>depth = 9, size_stat = 25, width = 5, ops_1q = 15, ops_2q = 9, ops_3q = 1\<rparr>\<rparr>]"

text \<open>View parameters on a terminal of 40 rows and 120 columns, with the cursor at
  the origin, for a given status and selection.\<close>

definition view_at :: "status_type \<Rightarrow> int \<Rightarrow> view_params" where
  "view_at st i =
     \<lparr>curr_row = 0, curr_col = 0, last_width = 120, last_height = 40, pass_id = i,
      transpiler_start_row = 6, transpiler_start_col = Some 40, status_type = st\<rparr>"

text \<open>The first turn of a session, a turn in which the user presses a key that opens
  no text box, and a turn in which the user presses \<open>i\<close>, types a text behind the
  prompt and presses Enter.\<close>

definition first_turn :: turn where
  "first_turn =
     \<lparr>turn_key = 0, turn_height = 40, turn_width = 120, table_width = 30, turn_text = []\<rparr>"

text \<open>A run of zeros, one more than \<open>int\<close> accepts digits: 4301 of them.\<close>

definition too_many_zeros :: string where
  "too_many_zeros = replicate (Suc max_str_digits) CHR ''0''"


definition index_turn :: "string \<Rightarrow> turn" where
  "index_turn typed =
     \<lparr>turn_key = ord CHR ''i'', turn_height = 40, turn_width = 120, table_width = 30,
      turn_text = index_prompt @ typed\<rparr>"

section \<open>Properties\<close>

subsection \<open>Auxiliary facts\<close>

lemma ord_vals:
  "ord CHR ''i'' = 105" "ord CHR ''I'' = 73" "ord CHR ''n'' = 110" "ord CHR ''N'' = 78"
  "ord CHR ''p'' = 112" "ord CHR ''P'' = 80" "ord CHR ''b'' = 98" "ord CHR ''B'' = 66"
  "ord CHR ''q'' = 113" "ord CHR ''Q'' = 81"
  by (simp_all add: ord_def)

lemmas key_defs = handle_keystroke_def ord_vals KEY_UP_def KEY_LEFT_def

text \<open>A property of the view parameters that the key handler and the status bar
  preserve, and that does not depend on the recorded terminal size or on
  \<open>transpiler_start_col\<close>, holds throughout a session once it holds at its start.\<close>

lemma refresh_preserves:
  assumes bar: "\<And>v txt v' shown.
      P v \<Longrightarrow> get_statusbar_win steps v (status_type v) txt = Inr (v', shown) \<Longrightarrow> P v'"
    and col: "\<And>v c. P v \<Longrightarrow> P (v\<lparr>transpiler_start_col := c\<rparr>)"
    and p: "P vp" and r: "refresh_base_windows steps vp resized t = Inr vp'"
  shows "P vp'"
proof -
  from r obtain vp1 shown where
    a: "vp1 = vp \<or> vp1 = vp\<lparr>transpiler_start_col := Some (5 + table_width t + 5)\<rparr>"
    and b: "get_statusbar_win steps vp1 (status_type vp1) (turn_text t) = Inr (vp', shown)"
    by (auto simp: refresh_base_windows_def split: if_splits sum.splits prod.splits)
  from a p col have "P vp1" by auto
  from this b show ?thesis by (rule bar)
qed

lemma loop_preserves:
  assumes keys: "\<And>v k. P v \<Longrightarrow> P (handle_keystroke steps v k)"
    and bar: "\<And>v txt v' shown.
      P v \<Longrightarrow> get_statusbar_win steps v (status_type v) txt = Inr (v', shown) \<Longrightarrow> P v'"
    and col: "\<And>v c. P v \<Longrightarrow> P (v\<lparr>transpiler_start_col := c\<rparr>)"
    and dims: "\<And>v w h. P v \<Longrightarrow> P (v\<lparr>last_width := w, last_height := h\<rparr>)"
  shows "P vp \<Longrightarrow> display_loop steps vp ts = Inr vp' \<Longrightarrow> P vp'"
proof (induction ts arbitrary: vp)
  case Nil
  then show ?case by simp
next
  case (Cons t ts)
  show ?case
  proof (cases "turn_key t \<in> set [ord CHR ''q'', ord CHR ''Q'']")
    case True
    with Cons.prems show ?thesis by simp
  next
    case False
    let ?r = "last_width vp \<noteq> turn_width t \<or> last_height vp \<noteq> turn_height t"
    from False Cons.prems(2) obtain vp2 where
      r: "refresh_base_windows steps (handle_keystroke steps vp (turn_key t)) ?r t = Inr vp2"
      and l: "display_loop steps (vp2\<lparr>last_width := turn_width t, last_height := turn_height t\<rparr>) ts
              = Inr vp'"
      by (auto simp: Let_def split: sum.splits)
    from Cons.prems(1) have "P (handle_keystroke steps vp (turn_key t))"
      by (rule keys)
    with bar col have "P vp2" using r by (rule refresh_preserves)
    then have "P (vp2\<lparr>last_width := turn_width t, last_height := turn_height t\<rparr>)"
      by (rule dims)
    from this l show ?thesis by (rule Cons.IH)
  qed
qed

lemma display_preserves:
  assumes keys: "\<And>v k. P v \<Longrightarrow> P (handle_keystroke steps v k)"
    and bar: "\<And>v txt v' shown.
      P v \<Longrightarrow> get_statusbar_win steps v (status_type v) txt = Inr (v', shown) \<Longrightarrow> P v'"
    and col: "\<And>v c. P v \<Longrightarrow> P (v\<lparr>transpiler_start_col := c\<rparr>)"
    and dims: "\<And>v w h. P v \<Longrightarrow> P (v\<lparr>last_width := w, last_height := h\<rparr>)"
    and start: "P reset_view_params"
    and d: "display steps ts = Inr vp"
  shows "P vp"
proof (cases ts)
  case Nil
  with d start show ?thesis by (simp add: display_def)
next
  case (Cons t ts')
  with d obtain vp0 where r: "refresh_base_windows steps reset_view_params True t = Inr vp0"
    and l: "display_loop steps vp0 ts = Inr vp"
    by (auto simp: display_def split: sum.splits)
  from bar col start r have "P vp0" by (rule refresh_preserves)
  with keys bar col dims show ?thesis using l by (rule loop_preserves)
qed

lemma inv_reset: "selection_inv reset_view_params"
  by (simp add: selection_inv_def reset_view_params_def)

lemma inv_keystroke: "selection_inv vp \<Longrightarrow> selection_inv (handle_keystroke steps vp k)"
  by (auto simp: selection_inv_def key_defs)

lemma inv_statusbar:
  "selection_inv vp \<Longrightarrow> get_statusbar_win steps vp (status_type vp) txt = Inr (vp', shown)
     \<Longrightarrow> selection_inv vp'"
  by (auto simp: selection_inv_def get_statusbar_win_def Let_def
           split: if_splits sum.splits option.splits)

lemma inv_display: "display steps ts = Inr vp \<Longrightarrow> selection_inv vp"
proof (rule display_preserves [where P = selection_inv])
  show "\<And>v k. selection_inv v \<Longrightarrow> selection_inv (handle_keystroke steps v k)"
    by (rule inv_keystroke)
  show "\<And>v txt v' shown. selection_inv v
      \<Longrightarrow> get_statusbar_win steps v (status_type v) txt = Inr (v', shown) \<Longrightarrow> selection_inv v'"
    by (rule inv_statusbar)
  show "\<And>v c. selection_inv v \<Longrightarrow> selection_inv (v\<lparr>transpiler_start_col := c\<rparr>)"
    by (simp add: selection_inv_def)
  show "\<And>v w h. selection_inv v \<Longrightarrow> selection_inv (v\<lparr>last_width := w, last_height := h\<rparr>)"
    by (simp add: selection_inv_def)
  show "selection_inv reset_view_params" by (rule inv_reset)
qed

text \<open>With at least one step, the selection stays between \<open>-1\<close> and the last index.\<close>

lemma range_keystroke:
  "steps \<noteq> [] \<Longrightarrow> selection_range steps vp \<Longrightarrow> selection_range steps (handle_keystroke steps vp k)"
  by (cases steps) (auto simp: selection_range_def key_defs)

lemma range_statusbar:
  "selection_range steps vp \<Longrightarrow> get_statusbar_win steps vp st txt = Inr (vp', shown)
     \<Longrightarrow> selection_range steps vp'"
  by (auto simp: selection_range_def get_statusbar_win_def Let_def
           split: if_splits sum.splits option.splits)

lemma range_display:
  assumes ne: "steps \<noteq> []" and d: "display steps ts = Inr vp"
  shows "selection_range steps vp"
proof (rule display_preserves [where P = "selection_range steps", OF _ _ _ _ _ d])
  show "\<And>v k. selection_range steps v \<Longrightarrow> selection_range steps (handle_keystroke steps v k)"
    using ne by (rule range_keystroke)
  show "\<And>v txt v' shown. selection_range steps v
      \<Longrightarrow> get_statusbar_win steps v (status_type v) txt = Inr (v', shown)
      \<Longrightarrow> selection_range steps v'"
    by (rule range_statusbar)
  show "\<And>v c. selection_range steps v \<Longrightarrow> selection_range steps (v\<lparr>transpiler_start_col := c\<rparr>)"
    by (simp add: selection_range_def)
  show "\<And>v w h. selection_range steps v
      \<Longrightarrow> selection_range steps (v\<lparr>last_width := w, last_height := h\<rparr>)"
    by (simp add: selection_range_def)
  show "selection_range steps reset_view_params"
    by (simp add: selection_range_def reset_view_params_def)
qed




text \<open>The parts of a text split at a separator.\<close>

lemma split_nonempty: "split_str sep s \<noteq> []"
  by (induction s) (auto split: list.splits)

lemma split_has_two: "sep \<in> set s \<Longrightarrow> 2 \<le> length (split_str sep s)"
  using split_nonempty by (induction s) (auto split: list.splits)

lemma second_part:
  "CHR '':'' \<in> set s \<Longrightarrow> py_index (split_str CHR '':'' s) 1 = Inr (split_str CHR '':'' s ! 1)"
  using split_has_two [of "CHR '':''" s] by (simp add: py_index_def)

lemma split_no_sep: "sep \<notin> set s \<Longrightarrow> split_str sep s = [s]"
  by (induction s) auto

lemma split_append_no_sep:
  "sep \<notin> set t \<Longrightarrow>
     split_str sep (s @ t) = butlast (split_str sep s) @ [last (split_str sep s) @ t]"
proof (induction s)
  case Nil
  then show ?case by (simp add: split_no_sep)
next
  case (Cons c s)
  obtain p ps where sp: "split_str sep s = p # ps"
    using split_nonempty [of sep s] by (cases "split_str sep s") auto
  show ?case
  proof (cases ps)
    case Nil
    with Cons sp show ?thesis by simp
  next
    case (Cons q qs)
    with Cons.prems Cons.IH sp show ?thesis by simp
  qed
qed

text \<open>What is typed behind the whole prompt, when it holds no colon, is the second
  part, after the blank that ends the prompt.\<close>

lemma typed_part:
  "CHR '':'' \<notin> set typed \<Longrightarrow>
     py_index (split_str CHR '':'' (index_prompt @ typed)) 1 = Inr (CHR '' '' # typed)"
proof -
  assume t: "CHR '':'' \<notin> set typed"
  have p: "split_str CHR '':'' index_prompt
           = ['' STATUS BAR  | Enter the index of the pass you want to view '', '' '']"
    by code_simp
  from t show ?thesis
    by (simp add: split_append_no_sep p py_index_def)
qed

text \<open>The limit on the digits: a run of zeros parses as 0 up to 4300 of them, and
  not beyond.\<close>

lemma scan_zeros: "scan_digits False d 0 (replicate n CHR ''0'') = Some (d + n, 0, [])"
  by (induction n arbitrary: d) (simp_all add: is_digit_def digit_val_def)

lemma py_int_zeros:
  "py_int (replicate (Suc m) CHR ''0'') = (if max_str_digits < Suc m then None else Some 0)"
proof -
  have s: "scan_digits False (Suc 0) 0 (replicate m CHR ''0'') = Some (Suc m, 0, [])"
    using scan_zeros [of "Suc 0" m] by simp
  show ?thesis
    by (simp add: py_int_def to_ascii_def c_isspace_def is_digit_def digit_val_def s)
qed

lemma strip_zeros: "strip (CHR '' '' # replicate (Suc m) CHR ''0'') = replicate (Suc m) CHR ''0''"
proof -
  have "dropWhile py_isspace (replicate (Suc m) CHR ''0'') = replicate (Suc m) CHR ''0''"
    by (simp add: py_isspace_def)
  then show ?thesis
    unfolding strip_def by (simp add: py_isspace_def del: replicate_Suc)
qed

text \<open>The loop that counts the passes, started from any pair of counters.\<close>

lemma total_passes_fold:
  "fold (\<lambda>st (t, a). if pass_type st = TRANSFORMATION then (t + 1, a) else (t, a + 1)) steps (t0, a0)
   = (t0 + int (length (filter (\<lambda>s. pass_type s = TRANSFORMATION) steps)),
      a0 + int (length (filter (\<lambda>s. pass_type s \<noteq> TRANSFORMATION) steps)))"
  by (induction steps arbitrary: t0 a0) auto

lemma total_passes_count:
  "total_passes steps =
     (int (length (filter (\<lambda>s. pass_type s = TRANSFORMATION) steps)),
      int (length (filter (\<lambda>s. pass_type s \<noteq> TRANSFORMATION) steps)))"
  by (simp add: total_passes_def total_passes_fold)

lemma str_int_small: "str_int 5 = ''5''" "str_int 3 = ''3''" "str_int 2 = ''2''"
  by code_simp+

subsection \<open>The selection and the status (C1)\<close>

text \<open>
  Claim C1 says that \<open>pass_id\<close> differs from \<open>-1\<close> only when \<open>status_type\<close> is "pass".
  The code keeps a selection in "index" as well. In the session below the user presses
  \<open>i\<close>, types 2 and presses Enter: \<open>_get_statusbar_win\<close> stores the selection and
  leaves \<open>status_type\<close> at "index". And \<open>i\<close> pressed while pass 2 is shown switches to
  "index" without clearing the selection.
\<close>

theorem selection_outside_pass_counterexample:
  "display five_steps [first_turn, index_turn ''2''] = Inr (view_at Index 2)
   \<and> pass_id (view_at Index 2) \<noteq> - 1 \<and> status_type (view_at Index 2) \<noteq> Pass
   \<and> handle_keystroke five_steps (view_at Pass 2) (ord CHR ''i'') = view_at Index 2"
  by code_simp

text \<open>
  Claim C1, as amended: in every state that a session reaches, \<open>pass_id\<close> differs from
  \<open>-1\<close> only when \<open>status_type\<close> is "index" or "pass"; \<open>_handle_keystroke\<close>, for every
  key, and \<open>_get_statusbar_win\<close>, called with the current \<open>status_type\<close> as \<open>display\<close>
  calls it, preserve this from every state in which it holds.
\<close>

theorem selection_needs_index_or_pass:
  "(display steps ts = Inr vp \<longrightarrow> selection_inv vp) \<and>
   (selection_inv vp0 \<longrightarrow> selection_inv (handle_keystroke steps vp0 k)) \<and>
   (selection_inv vp0 \<and> get_statusbar_win steps vp0 (status_type vp0) gathered = Inr (vp1, shown)
      \<longrightarrow> selection_inv vp1)"
  using inv_display inv_keystroke inv_statusbar by blast

theorem selection_needs_index_or_pass_witness:
  "display five_steps [first_turn, index_turn ''2''] = Inr (view_at Index 2)
   \<and> selection_inv (view_at Index 2)
   \<and> selection_inv (handle_keystroke five_steps (view_at Index 2) (ord CHR ''n''))
   \<and> get_statusbar_win five_steps (view_at Index 2) (status_type (view_at Index 2))
        (index_prompt @ ''4'') = Inr (view_at Index 4, Pass)
   \<and> selection_inv (view_at Index 4)"
proof -
  have d: "display five_steps [first_turn, index_turn ''2''] = Inr (view_at Index 2)"
    by code_simp
  have g: "get_statusbar_win five_steps (view_at Index 2) (status_type (view_at Index 2))
             (index_prompt @ ''4'') = Inr (view_at Index 4, Pass)"
    by code_simp
  show ?thesis
    using d g
      selection_needs_index_or_pass [of five_steps "[first_turn, index_turn ''2'']"
        "view_at Index 2" "view_at Index 2" "ord CHR ''n''" "index_prompt @ ''4''"
        "view_at Index 4" Pass]
    by blast
qed

subsection \<open>Committing an index (C2, C3)\<close>

text \<open>
  Claim C2 says that a commit of a text that parses as an index in range sets the
  sub-mode to "pass". \<open>_get_statusbar_win\<close> never assigns \<open>status_type\<close>: after the
  user has typed 2 behind the prompt, \<open>pass_id\<close> is 2 and the window shows the "pass"
  status string, while \<open>status_type\<close> is still "index".
\<close>

theorem index_commit_keeps_status_counterexample:
  "get_statusbar_win five_steps (view_at Index (- 1)) Index (index_prompt @ ''2'')
     = Inr (view_at Index 2, Pass)
   \<and> status_type (view_at Index 2) \<noteq> Pass"
  by code_simp

text \<open>
  Claim C2, as amended: when the second of the parts into which its colons split the
  collected text (the text from the first colon to the next one, or to the end when
  there is none), stripped, parses as an integer \<open>v\<close> with \<open>0 \<le> v \<le> N - 1\<close>, the commit
  sets \<open>pass_id\<close> to \<open>v\<close>, changes nothing else in the view parameters (\<open>status_type\<close>
  stays as it was) and shows the "pass" status string; and whenever a commit shows the
  "pass" status string, \<open>pass_id\<close> lies in \<open>[0, N - 1]\<close> afterwards.
\<close>

theorem index_commit_selects:
  "(py_index (split_str CHR '':'' gathered) 1 = Inr part \<and> py_int (strip part) = Some v
      \<and> 0 \<le> v \<and> v \<le> int (length steps) - 1
    \<longrightarrow> get_statusbar_win steps vp Index gathered = Inr (vp\<lparr>pass_id := v\<rparr>, Pass)
        \<and> status_type (vp\<lparr>pass_id := v\<rparr>) = status_type vp)
   \<and> (get_statusbar_win steps vp Index gathered = Inr (vp', Pass)
    \<longrightarrow> 0 \<le> pass_id vp' \<and> pass_id vp' \<le> int (length steps) - 1)"
  by (auto simp: get_statusbar_win_def Let_def split: sum.splits option.splits if_splits)

theorem index_commit_selects_witness:
  "py_index (split_str CHR '':'' (index_prompt @ '' 3 '')) 1 = Inr ''  3 ''
   \<and> py_int (strip ''  3 '') = Some 3 \<and> (0::int) \<le> 3 \<and> 3 \<le> int (length five_steps) - 1
   \<and> get_statusbar_win five_steps (view_at Index (- 1)) Index (index_prompt @ '' 3 '')
       = Inr ((view_at Index (- 1))\<lparr>pass_id := 3\<rparr>, Pass)
   \<and> 0 \<le> pass_id ((view_at Index (- 1))\<lparr>pass_id := 3\<rparr>)
   \<and> pass_id ((view_at Index (- 1))\<lparr>pass_id := 3\<rparr>) \<le> int (length five_steps) - 1"
proof -
  have h: "py_index (split_str CHR '':'' (index_prompt @ '' 3 '')) 1 = Inr ''  3 ''
     \<and> py_int (strip ''  3 '') = Some 3 \<and> (0::int) \<le> 3 \<and> 3 \<le> int (length five_steps) - 1"
    by code_simp
  show ?thesis
    using h
      index_commit_selects [of "index_prompt @ '' 3 ''" "''  3 ''" 3 five_steps
        "view_at Index (- 1)" "(view_at Index (- 1))\<lparr>pass_id := 3\<rparr>"]
    by blast
qed

text \<open>
  Claim C3 says that a text that does not parse leaves the sub-mode "invalid" and a
  value out of range leaves it "out_of_bounds", never raising. As above the commit
  leaves \<open>status_type\<close> at "index" and only the status string shown changes. And
  \<open>split(":")[1]\<close> raises \<open>IndexError\<close> when the collected text holds no colon, as on a
  terminal of 40 columns, where the prompt is cut to its first 39 characters.
\<close>

theorem index_reject_keeps_status_counterexample:
  "get_statusbar_win five_steps (view_at Index (- 1)) Index (index_prompt @ ''abc'')
     = Inr (view_at Index (- 1), Invalid)
   \<and> status_type (view_at Index (- 1)) \<noteq> Invalid
   \<and> get_statusbar_win five_steps (view_at Index (- 1)) Index (index_prompt @ ''7'')
     = Inr (view_at Index (- 1), Out_of_bounds)
   \<and> status_type (view_at Index (- 1)) \<noteq> Out_of_bounds
   \<and> get_statusbar_win five_steps (view_at Index (- 1)) Index (take 39 index_prompt @ ''7'')
     = Inl IndexError"
  by code_simp

text \<open>
  Claim C3, as amended: for every collected text that holds a colon, the commit raises
  nothing. The text that counts is the second of the parts into which its colons split
  the collected text: the text from the first colon to the next one, or to the end when
  there is none. If that part, stripped, does not parse as an integer (the empty text
  and a text of more than 4300 digits included) the window shows the "invalid" status
  string, and if it parses as \<open>v\<close> with \<open>v < 0\<close> or \<open>v \<ge> N\<close> the window shows the
  "out_of_bounds" status string; in both cases the view parameters, \<open>pass_id\<close> and
  \<open>status_type\<close> among them, are unchanged.
\<close>

theorem index_commit_rejects:
  "CHR '':'' \<in> set gathered \<longrightarrow>
     (\<exists>part. py_index (split_str CHR '':'' gathered) 1 = Inr part \<and>
        (py_int (strip part) = None
           \<longrightarrow> get_statusbar_win steps vp Index gathered = Inr (vp, Invalid)) \<and>
        (\<forall>v. py_int (strip part) = Some v \<and> (v < 0 \<or> int (length steps) \<le> v)
           \<longrightarrow> get_statusbar_win steps vp Index gathered = Inr (vp, Out_of_bounds))) \<and>
     (\<exists>r. get_statusbar_win steps vp Index gathered = Inr r)"
proof
  assume "CHR '':'' \<in> set gathered"
  then have "py_index (split_str CHR '':'' gathered) 1 = Inr (split_str CHR '':'' gathered ! 1)"
    by (rule second_part)
  then show "(\<exists>part. py_index (split_str CHR '':'' gathered) 1 = Inr part \<and>
        (py_int (strip part) = None
           \<longrightarrow> get_statusbar_win steps vp Index gathered = Inr (vp, Invalid)) \<and>
        (\<forall>v. py_int (strip part) = Some v \<and> (v < 0 \<or> int (length steps) \<le> v)
           \<longrightarrow> get_statusbar_win steps vp Index gathered = Inr (vp, Out_of_bounds))) \<and>
     (\<exists>r. get_statusbar_win steps vp Index gathered = Inr r)"
    by (cases "py_int (strip (split_str CHR '':'' gathered ! 1))")
       (auto simp: get_statusbar_win_def Let_def)
qed

text \<open>The cases named by the claim: a negative number between blanks, the value
  \<open>N\<close>, nothing typed, and blanks only; then a number followed by a colon and more
  text, of which only the number is out of range, and 4301 zeros, one digit more
  than \<open>int\<close> accepts.\<close>

theorem index_commit_rejects_witness:
  "CHR '':'' \<in> set (index_prompt @ '' -1 '')
   \<and> get_statusbar_win five_steps (view_at Index 2) Index (index_prompt @ '' -1 '')
       = Inr (view_at Index 2, Out_of_bounds)
   \<and> CHR '':'' \<in> set (index_prompt @ ''5'')
   \<and> get_statusbar_win five_steps (view_at Index 2) Index (index_prompt @ ''5'')
       = Inr (view_at Index 2, Out_of_bounds)
   \<and> CHR '':'' \<in> set index_prompt
   \<and> get_statusbar_win five_steps (view_at Index 2) Index index_prompt
       = Inr (view_at Index 2, Invalid)
   \<and> CHR '':'' \<in> set (index_prompt @ ''  '')
   \<and> get_statusbar_win five_steps (view_at Index 2) Index (index_prompt @ ''  '')
       = Inr (view_at Index 2, Invalid)
   \<and> CHR '':'' \<in> set (index_prompt @ ''9:x'')
   \<and> get_statusbar_win five_steps (view_at Index 2) Index (index_prompt @ ''9:x'')
       = Inr (view_at Index 2, Out_of_bounds)
   \<and> CHR '':'' \<in> set (index_prompt @ too_many_zeros)
   \<and> get_statusbar_win five_steps (view_at Index 2) Index
        (index_prompt @ too_many_zeros) = Inr (view_at Index 2, Invalid)"
proof -
  have m: "CHR '':'' \<in> set (index_prompt @ '' -1 '')" "CHR '':'' \<in> set (index_prompt @ ''5'')"
    "CHR '':'' \<in> set index_prompt" "CHR '':'' \<in> set (index_prompt @ ''  '')"
    "CHR '':'' \<in> set (index_prompt @ ''9:x'')"
    by (simp_all add: index_prompt_def)
  have l: "CHR '':'' \<in> set (index_prompt @ too_many_zeros)"
    by (simp add: index_prompt_def)
  have p: "py_index (split_str CHR '':'' (index_prompt @ '' -1 '')) 1 = Inr ''  -1 ''"
    "py_int (strip ''  -1 '') = Some (- 1)"
    "py_index (split_str CHR '':'' (index_prompt @ ''5'')) 1 = Inr '' 5''"
    "py_int (strip '' 5'') = Some 5" "int (length five_steps) \<le> 5"
    "py_index (split_str CHR '':'' index_prompt) 1 = Inr '' ''"
    "py_int (strip '' '') = None"
    "py_index (split_str CHR '':'' (index_prompt @ ''  '')) 1 = Inr ''   ''"
    "py_int (strip ''   '') = None"
    "py_index (split_str CHR '':'' (index_prompt @ ''9:x'')) 1 = Inr '' 9''"
    "py_int (strip '' 9'') = Some 9" "int (length five_steps) \<le> 9"
    by code_simp+
  have z: "py_index (split_str CHR '':'' (index_prompt @ too_many_zeros)) 1
             = Inr (CHR '' '' # too_many_zeros)"
    by (rule typed_part) (simp add: too_many_zeros_def)
  have n: "py_int (strip (CHR '' '' # too_many_zeros)) = None"
    unfolding too_many_zeros_def strip_zeros py_int_zeros by simp
  have a: "get_statusbar_win five_steps (view_at Index 2) Index (index_prompt @ '' -1 '')
             = Inr (view_at Index 2, Out_of_bounds)"
    using m p index_commit_rejects [of "index_prompt @ '' -1 ''" five_steps "view_at Index 2"]
    by (auto simp del: append.simps)
  have b: "get_statusbar_win five_steps (view_at Index 2) Index (index_prompt @ ''5'')
             = Inr (view_at Index 2, Out_of_bounds)"
    using m p index_commit_rejects [of "index_prompt @ ''5''" five_steps "view_at Index 2"]
    by (auto simp del: append.simps)
  have c: "get_statusbar_win five_steps (view_at Index 2) Index index_prompt
             = Inr (view_at Index 2, Invalid)"
    using m p index_commit_rejects [of "index_prompt" five_steps "view_at Index 2"]
    by (auto simp del: append.simps)
  have d: "get_statusbar_win five_steps (view_at Index 2) Index (index_prompt @ ''  '')
             = Inr (view_at Index 2, Invalid)"
    using m p index_commit_rejects [of "index_prompt @ ''  ''" five_steps "view_at Index 2"]
    by (auto simp del: append.simps)
  have e: "get_statusbar_win five_steps (view_at Index 2) Index (index_prompt @ ''9:x'')
             = Inr (view_at Index 2, Out_of_bounds)"
    using m p index_commit_rejects [of "index_prompt @ ''9:x''" five_steps "view_at Index 2"]
    by (auto simp del: append.simps)
  let ?t = "index_prompt @ too_many_zeros"
  from index_commit_rejects [of ?t five_steps "view_at Index 2"] l
  have "(\<exists>part. py_index (split_str CHR '':'' ?t) 1 = Inr part \<and>
          (py_int (strip part) = None
             \<longrightarrow> get_statusbar_win five_steps (view_at Index 2) Index ?t
                 = Inr (view_at Index 2, Invalid)) \<and>
          (\<forall>v. py_int (strip part) = Some v \<and> (v < 0 \<or> int (length five_steps) \<le> v)
             \<longrightarrow> get_statusbar_win five_steps (view_at Index 2) Index ?t
                 = Inr (view_at Index 2, Out_of_bounds))) \<and>
        (\<exists>r. get_statusbar_win five_steps (view_at Index 2) Index ?t = Inr r)"
    by (rule mp)
  then have "\<exists>part. py_index (split_str CHR '':'' ?t) 1 = Inr part \<and>
          (py_int (strip part) = None
             \<longrightarrow> get_statusbar_win five_steps (view_at Index 2) Index ?t
                 = Inr (view_at Index 2, Invalid)) \<and>
          (\<forall>v. py_int (strip part) = Some v \<and> (v < 0 \<or> int (length five_steps) \<le> v)
             \<longrightarrow> get_statusbar_win five_steps (view_at Index 2) Index ?t
                 = Inr (view_at Index 2, Out_of_bounds))"
    by (rule conjunct1)
  then obtain part where
    q: "py_index (split_str CHR '':'' ?t) 1 = Inr part"
    and r: "py_int (strip part) = None
             \<longrightarrow> get_statusbar_win five_steps (view_at Index 2) Index ?t
                 = Inr (view_at Index 2, Invalid)"
    by (elim exE conjE)
  from q z have "Inr part = (Inr (CHR '' '' # too_many_zeros) :: py_error + string)"
    by (simp only:)
  then have "part = CHR '' '' # too_many_zeros" by (simp only: sum.inject)
  with n have "py_int (strip part) = None" by (simp only:)
  with r have f: "get_statusbar_win five_steps (view_at Index 2) Index ?t
                    = Inr (view_at Index 2, Invalid)"
    by (rule mp)
  from m l a b c d e f show ?thesis by (simp only: simp_thms)
qed

subsection \<open>The keys (C4, C5, C6, C10)\<close>

text \<open>
  Claim C4: the key \<open>b\<close> or \<open>B\<close>, whatever the view parameters before, leaves
  \<open>status_type\<close> "normal", \<open>pass_id\<close> \<open>-1\<close>, \<open>curr_row\<close> 0 and \<open>curr_col\<close> 0; the other
  parameters keep their values.
\<close>

theorem back_resets_view:
  "k \<in> {ord CHR ''b'', ord CHR ''B''} \<longrightarrow>
     handle_keystroke steps vp k
       = vp\<lparr>status_type := Normal, pass_id := - 1, curr_col := 0, curr_row := 0\<rparr>
     \<and> status_type (handle_keystroke steps vp k) = Normal
     \<and> pass_id (handle_keystroke steps vp k) = - 1
     \<and> curr_row (handle_keystroke steps vp k) = 0
     \<and> curr_col (handle_keystroke steps vp k) = 0"
  by (auto simp: key_defs)

theorem back_resets_view_witness:
  "ord CHR ''B'' \<in> {ord CHR ''b'', ord CHR ''B''}
   \<and> handle_keystroke five_steps ((view_at Pass 3)\<lparr>curr_row := 7, curr_col := 2\<rparr>) (ord CHR ''B'')
       = view_at Normal (- 1)"
proof -
  have e: "((view_at Pass 3)\<lparr>curr_row := 7, curr_col := 2\<rparr>)
             \<lparr>status_type := Normal, pass_id := - 1, curr_col := 0, curr_row := 0\<rparr>
           = view_at Normal (- 1)"
    by (simp add: view_at_def)
  show ?thesis
    using e
      back_resets_view [of "ord CHR ''B''" five_steps
        "(view_at Pass 3)\<lparr>curr_row := 7, curr_col := 2\<rparr>"]
    by simp
qed



text \<open>
  Claim C6: in status "pass", \<open>n\<close> at \<open>pass_id = N - 1\<close> and \<open>p\<close> at \<open>pass_id = 0\<close> leave
  the view parameters as they are; and for a sequence that is not empty and a
  selection in \<open>[-1, N - 1]\<close>, \<open>n\<close> and \<open>p\<close> change only \<open>pass_id\<close>, to \<open>pass_id + 1\<close> and
  \<open>pass_id - 1\<close> clamped to \<open>[0, N - 1]\<close>. Every state that a session over a sequence
  that is not empty reaches has its selection in \<open>[-1, N - 1]\<close>.
\<close>

theorem next_previous_clamped:
  "status_type vp = Pass \<and> kn \<in> {ord CHR ''n'', ord CHR ''N''}
     \<and> kp \<in> {ord CHR ''p'', ord CHR ''P''} \<longrightarrow>
     (pass_id vp = int (length steps) - 1 \<longrightarrow> handle_keystroke steps vp kn = vp) \<and>
     (pass_id vp = 0 \<longrightarrow> handle_keystroke steps vp kp = vp) \<and>
     (steps \<noteq> [] \<and> selection_range steps vp \<longrightarrow>
        handle_keystroke steps vp kn
          = vp\<lparr>pass_id := max 0 (min (int (length steps) - 1) (pass_id vp + 1))\<rparr> \<and>
        handle_keystroke steps vp kp
          = vp\<lparr>pass_id := max 0 (min (int (length steps) - 1) (pass_id vp - 1))\<rparr>) \<and>
     (steps \<noteq> [] \<and> display steps ts = Inr vp' \<longrightarrow> selection_range steps vp')"
proof -
  have "steps \<noteq> [] \<and> display steps ts = Inr vp' \<longrightarrow> selection_range steps vp'"
    using range_display by blast
  then show ?thesis
    by (cases vp; cases steps) (auto simp: key_defs selection_range_def min_def max_def)
qed

theorem next_previous_clamped_witness:
  "status_type (view_at Pass 4) = Pass \<and> ord CHR ''n'' \<in> {ord CHR ''n'', ord CHR ''N''}
   \<and> ord CHR ''P'' \<in> {ord CHR ''p'', ord CHR ''P''}
   \<and> pass_id (view_at Pass 4) = int (length five_steps) - 1
   \<and> five_steps \<noteq> [] \<and> selection_range five_steps (view_at Pass 4)
   \<and> handle_keystroke five_steps (view_at Pass 4) (ord CHR ''n'') = view_at Pass 4
   \<and> handle_keystroke five_steps (view_at Pass 4) (ord CHR ''P'') = view_at Pass 3
   \<and> status_type (view_at Pass 0) = Pass \<and> pass_id (view_at Pass 0) = 0
   \<and> selection_range five_steps (view_at Pass 0)
   \<and> handle_keystroke five_steps (view_at Pass 0) (ord CHR ''P'') = view_at Pass 0
   \<and> handle_keystroke five_steps (view_at Pass 0) (ord CHR ''n'') = view_at Pass 1"
proof -
  have h: "status_type (view_at Pass 4) = Pass \<and> ord CHR ''n'' \<in> {ord CHR ''n'', ord CHR ''N''}
     \<and> ord CHR ''P'' \<in> {ord CHR ''p'', ord CHR ''P''}"
    "pass_id (view_at Pass 4) = int (length five_steps) - 1"
    "five_steps \<noteq> [] \<and> selection_range five_steps (view_at Pass 4)"
    "status_type (view_at Pass 0) = Pass \<and> ord CHR ''n'' \<in> {ord CHR ''n'', ord CHR ''N''}
     \<and> ord CHR ''P'' \<in> {ord CHR ''p'', ord CHR ''P''}"
    "pass_id (view_at Pass 0) = 0"
    "five_steps \<noteq> [] \<and> selection_range five_steps (view_at Pass 0)"
    by (simp_all add: view_at_def five_steps_def selection_range_def)
  have e: "(view_at Pass 4)\<lparr>pass_id :=
              max 0 (min (int (length five_steps) - 1) (pass_id (view_at Pass 4) - 1))\<rparr>
            = view_at Pass 3"
    "(view_at Pass 0)\<lparr>pass_id :=
              max 0 (min (int (length five_steps) - 1) (pass_id (view_at Pass 0) + 1))\<rparr>
            = view_at Pass 1"
    by (simp_all add: view_at_def five_steps_def)
  from h next_previous_clamped [of "view_at Pass 4" "ord CHR ''n''" "ord CHR ''P''" five_steps]
  have a: "handle_keystroke five_steps (view_at Pass 4) (ord CHR ''n'') = view_at Pass 4
    \<and> handle_keystroke five_steps (view_at Pass 4) (ord CHR ''P'')
       = (view_at Pass 4)\<lparr>pass_id :=
              max 0 (min (int (length five_steps) - 1) (pass_id (view_at Pass 4) - 1))\<rparr>"
    by blast
  from h next_previous_clamped [of "view_at Pass 0" "ord CHR ''n''" "ord CHR ''P''" five_steps]
  have b: "handle_keystroke five_steps (view_at Pass 0) (ord CHR ''P'') = view_at Pass 0
    \<and> handle_keystroke five_steps (view_at Pass 0) (ord CHR ''n'')
       = (view_at Pass 0)\<lparr>pass_id :=
              max 0 (min (int (length five_steps) - 1) (pass_id (view_at Pass 0) + 1))\<rparr>"
    by blast
  from a b e have "handle_keystroke five_steps (view_at Pass 4) (ord CHR ''n'') = view_at Pass 4
    \<and> handle_keystroke five_steps (view_at Pass 4) (ord CHR ''P'') = view_at Pass 3
    \<and> handle_keystroke five_steps (view_at Pass 0) (ord CHR ''P'') = view_at Pass 0
    \<and> handle_keystroke five_steps (view_at Pass 0) (ord CHR ''n'') = view_at Pass 1"
    by (simp only:)
  with h show ?thesis by blast
qed

text \<open>
  Claim C10: for a sequence that is not empty, in status "index" with no pass selected
  (\<open>pass_id = -1\<close>), \<open>n\<close> selects pass 0 and switches to "pass", and so does \<open>p\<close>.
\<close>

theorem next_previous_from_index:
  "steps \<noteq> [] \<and> status_type vp = Index \<and> pass_id vp = - 1
     \<and> kn \<in> {ord CHR ''n'', ord CHR ''N''} \<and> kp \<in> {ord CHR ''p'', ord CHR ''P''} \<longrightarrow>
     handle_keystroke steps vp kn = vp\<lparr>pass_id := 0, status_type := Pass\<rparr> \<and>
     handle_keystroke steps vp kp = vp\<lparr>pass_id := 0, status_type := Pass\<rparr>"
  by (cases steps) (auto simp: key_defs)

theorem next_previous_from_index_witness:
  "five_steps \<noteq> [] \<and> status_type (view_at Index (- 1)) = Index
   \<and> pass_id (view_at Index (- 1)) = - 1
   \<and> handle_keystroke five_steps (view_at Index (- 1)) (ord CHR ''n'') = view_at Pass 0
   \<and> handle_keystroke five_steps (view_at Index (- 1)) (ord CHR ''P'') = view_at Pass 0"
proof -
  have h: "five_steps \<noteq> [] \<and> status_type (view_at Index (- 1)) = Index
     \<and> pass_id (view_at Index (- 1)) = - 1"
    by (simp add: view_at_def five_steps_def)
  have e: "(view_at Index (- 1))\<lparr>pass_id := 0, status_type := Pass\<rparr> = view_at Pass 0"
    by (simp add: view_at_def)
  show ?thesis
    using h e
      next_previous_from_index [of five_steps "view_at Index (- 1)" "ord CHR ''n''"
        "ord CHR ''P''"]
    by simp
qed

subsection \<open>The overview (C7, C8)\<close>

text \<open>
  Claim C7: for a sequence that is not empty, \<open>_get_overview_stats\<close> returns, for
  "depth", "size" and "width", as "init" the value of the step at index 0 and as
  "final" the value of the step at index \<open>N - 1\<close>, and for "ops" the sum of \<open>ops_1q\<close>,
  \<open>ops_2q\<close> and \<open>ops_3q\<close> of the step at index 0 and of the step at index \<open>N - 1\<close>.
\<close>

theorem overview_stats_first_last:
  "steps \<noteq> [] \<longrightarrow> get_overview_stats steps = Inr
    [(''depth'', \<lparr>init = depth (stats (steps ! 0)),
                  final = depth (stats (steps ! (length steps - 1)))\<rparr>),
     (''size'', \<lparr>init = size_stat (stats (steps ! 0)),
                 final = size_stat (stats (steps ! (length steps - 1)))\<rparr>),
     (''width'', \<lparr>init = width (stats (steps ! 0)),
                  final = width (stats (steps ! (length steps - 1)))\<rparr>),
     (''ops'',
      \<lparr>init = ops_1q (stats (steps ! 0)) + ops_2q (stats (steps ! 0)) + ops_3q (stats (steps ! 0)),
       final = ops_1q (stats (steps ! (length steps - 1)))
               + ops_2q (stats (steps ! (length steps - 1)))
               + ops_3q (stats (steps ! (length steps - 1)))\<rparr>)]"
  by (cases steps)
     (auto simp: get_overview_stats_def py_index_def stats_dict_def py_getitem_def nat_add_distrib)

text \<open>In the sample the depths are 7, 2, 12, 12 and 9: the overview has 7 and 9, the
  first and the last, not the least and the greatest.\<close>

theorem overview_stats_first_last_witness:
  "five_steps \<noteq> [] \<and> get_overview_stats five_steps = Inr
    [(''depth'', \<lparr>init = 7, final = 9\<rparr>), (''size'', \<lparr>init = 9, final = 25\<rparr>),
     (''width'', \<lparr>init = 3, final = 5\<rparr>), (''ops'', \<lparr>init = 9, final = 25\<rparr>)]"
proof -
  have h: "five_steps \<noteq> []" by (simp add: five_steps_def)
  show ?thesis
    using h overview_stats_first_last [of five_steps] by (simp add: five_steps_def)
qed

text \<open>
  Claim C8 gives the two lines of the overview as "Total Passes: 5" and
  "Transformation: 3 | Analysis: 2". The f-strings of \<open>_build_overview_win\<close> have a
  blank on either side of each colon.
\<close>

theorem overview_totals_literal_counterexample:
  "length five_steps = 5
   \<and> length (filter (\<lambda>s. pass_type s = TRANSFORMATION) five_steps) = 3
   \<and> length (filter (\<lambda>s. pass_type s = ANALYSIS) five_steps) = 2
   \<and> total_pass_str five_steps 120 = ''Total Passes : 5''
   \<and> total_pass_str five_steps 120 \<noteq> ''Total Passes: 5''
   \<and> pass_categories_str five_steps 120 = ''Transformation : 3 | Analysis : 2''
   \<and> pass_categories_str five_steps 120 \<noteq> ''Transformation: 3 | Analysis: 2''"
  by code_simp

text \<open>
  Claim C8, as amended: for a sequence with three transformation and two analysis
  passes, on a terminal of at least 34 columns, the loop over the steps counts
  \<open>(3, 2)\<close> and the overview window writes "Total Passes : 5" and
  "Transformation : 3 | Analysis : 2".
\<close>

theorem overview_totals_strings:
  "length (filter (\<lambda>s. pass_type s = TRANSFORMATION) steps) = 3
     \<and> length (filter (\<lambda>s. pass_type s = ANALYSIS) steps) = 2 \<and> 34 \<le> cols \<longrightarrow>
   total_passes steps = (3, 2)
   \<and> total_pass_str steps cols = ''Total Passes : 5''
   \<and> pass_categories_str steps cols = ''Transformation : 3 | Analysis : 2''"
proof
  assume h: "length (filter (\<lambda>s. pass_type s = TRANSFORMATION) steps) = 3
     \<and> length (filter (\<lambda>s. pass_type s = ANALYSIS) steps) = 2 \<and> 34 \<le> cols"
  have "filter (\<lambda>s. pass_type s \<noteq> TRANSFORMATION) steps
        = filter (\<lambda>s. pass_type s = ANALYSIS) steps"
    by (rule filter_cong) (auto intro: PassType.exhaust)
  with h have tp: "total_passes steps = (3, 2)" by (simp add: total_passes_count)
  from h have "34 \<le> cols" by blast
  then have "33 \<le> nat (cols - 1)" by arith
  with tp show "total_passes steps = (3, 2)
   \<and> total_pass_str steps cols = ''Total Passes : 5''
   \<and> pass_categories_str steps cols = ''Transformation : 3 | Analysis : 2''"
    by (simp add: total_pass_str_def pass_categories_str_def str_int_small py_slice_to_def)
qed

theorem overview_totals_strings_witness:
  "length (filter (\<lambda>s. pass_type s = TRANSFORMATION) five_steps) = 3
   \<and> length (filter (\<lambda>s. pass_type s = ANALYSIS) five_steps) = 2 \<and> (34::int) \<le> 120
   \<and> total_pass_str five_steps 120 = ''Total Passes : 5''
   \<and> pass_categories_str five_steps 120 = ''Transformation : 3 | Analysis : 2''"
proof -
  have h: "length (filter (\<lambda>s. pass_type s = TRANSFORMATION) five_steps) = 3
   \<and> length (filter (\<lambda>s. pass_type s = ANALYSIS) five_steps) = 2 \<and> (34::int) \<le> 120"
    by (simp add: five_steps_def)
  show ?thesis using h overview_totals_strings [of five_steps 120] by blast
qed

subsection \<open>Centering (C9)\<close>

text \<open>
  Claim C9: for a text of length \<open>L\<close> in a field of width \<open>W\<close>, \<open>_get_center\<close> with
  its default divisor returns \<open>max(0, W // 2 - L // 2 - L % 2)\<close>, which is \<open>W // 2\<close>
  less half of \<open>L\<close> rounded up; for \<open>W = 80\<close> and \<open>L = 17\<close> it returns 31.
\<close>

theorem center_offset:
  "get_center_default w l = Inr (max 0 (w div 2 - l div 2 - l mod 2))
   \<and> get_center_default w l = Inr (max 0 (w div 2 - (l + 1) div 2))
   \<and> get_center_default 80 17 = Inr 31"
proof -
  have "l div 2 + l mod 2 = (l + 1) div 2" by presburger
  then have "w div 2 - l div 2 - l mod 2 = w div 2 - (l + 1) div 2" by linarith
  then have "max 0 (w div 2 - l div 2 - l mod 2) = max 0 (w div 2 - (l + 1) div 2)"
    by (simp only:)
  then show ?thesis by (simp add: get_center_default_def get_center_def)
qed

end
